theory Spec2Isabelle
  imports Main "HOL-Library.Char_ord" "HOL-Library.List_Lexorder"
begin

section \<open>The application-start workflow of the cf command line client\<close>

text \<open>
  This theory embeds the \<^verbatim>\<open>application\<close> package's start command
  (\<^verbatim>\<open>ApplicationStart\<close>, \<^verbatim>\<open>WatchStaging\<close>, \<^verbatim>\<open>TailStagingLogs\<close>,
  \<^verbatim>\<open>waitForInstancesToStage\<close>, \<^verbatim>\<open>waitForOneRunningInstance\<close>,
  \<^verbatim>\<open>fetchInstanceCount\<close>, \<^verbatim>\<open>instancesDetails\<close>) found in
  \<^verbatim>\<open>src/cf/requirements/usage_requirement.go\<close>.

  Conventions of the embedding.
  \<^item> A Go function returning \<^verbatim>\<open>(v, error)\<close> returns a pair whose second component
    is an \<open>error option\<close>; \<open>None\<close> is \<^verbatim>\<open>nil\<close>. An error is its message.
  \<^item> The control task (the goroutine that runs \<^verbatim>\<open>WatchStaging\<close>) threads a state
    \<open>ctl\<close>: the trace of everything it does to its collaborators (user interface,
    repositories, sleeps, the three handshake operations with the log tailer), the
    monotonic clock, and how many calls each repository has answered.
  \<^item> The collaborators' answers come from a \<open>world\<close>: the answer to the \<open>k\<close>-th call
    of each repository method, the time that passes between two readings of the clock,
    whether the start-up timer has fired at the \<open>k\<close>-th \<^verbatim>\<open>select\<close>.
  \<^item> Package-level declarations that the file uses but does not contain (the
    translation function \<^verbatim>\<open>T\<close>, the colour functions of \<^verbatim>\<open>terminal\<close>,
    \<^verbatim>\<open>cf.Name\<close>, the five \<^verbatim>\<open>models.Instance...\<close> state constants, the
    rendering of \<^verbatim>\<open>Duration.Minutes()\<close> by \<^verbatim>\<open>%f\<close>) are the fields of a parameter
    \<open>pkg\<close>.
  \<^item> A loop that may run forever takes fuel (a bound on its iterations) and returns
    \<open>None\<close> when the fuel is used up before the loop has left; a goroutine blocked for
    ever on a \<^verbatim>\<open>WaitGroup\<close> is \<open>None\<close> too.
  \<^item> The \<^verbatim>\<open>fmt.Println\<close> diagnostics on standard output are left out of the trace.
  \<^item> Durations (\<^verbatim>\<open>time.Duration\<close>, an \<^verbatim>\<open>int64\<close> of nanoseconds) are integers;
    the counters of \<^verbatim>\<open>instanceCount\<close> (Go \<^verbatim>\<open>int\<close>, only ever incremented from
    zero, once per list element) are natural numbers.
\<close>

subsection \<open>Data\<close>

type_synonym error = string

text \<open>\<^verbatim>\<open>models.Application\<close>, with the fields the start command reads.\<close>

record Application =
  GUID :: string
  Name :: string
  State :: string
  PackageState :: string
  StagingFailedReason :: string
  Command :: string
  DetectedStartCommand :: string

text \<open>The zero value \<^verbatim>\<open>models.Application{}\<close>.\<close>

definition Application_zero :: Application where
  "Application_zero =
     \<lparr>GUID = [], Name = [], State = [], PackageState = [], StagingFailedReason = [],
      Command = [], DetectedStartCommand = []\<rparr>"

text \<open>\<^verbatim>\<open>models.AppInstanceFields\<close>: the state tag and the detail text of one instance.\<close>

record AppInstanceFields =
  inst_State :: string
  inst_Details :: string

record instanceCount =
  running :: nat
  starting :: nat
  startingDetails :: "string set"
  flapping :: nat
  down :: nat
  crashed :: nat
  total :: nat

text \<open>The zero value \<^verbatim>\<open>instanceCount{}\<close>; an empty and a nil map are both the empty set.\<close>

definition instanceCount_zero :: instanceCount where
  "instanceCount_zero =
     \<lparr>running = 0, starting = 0, startingDetails = {}, flapping = 0, down = 0,
      crashed = 0, total = 0\<rparr>"

text \<open>A value handed to the translation function \<^verbatim>\<open>T\<close> in its template map.\<close>

datatype tval = TStr string | TInt int

text \<open>The declarations of other packages that the code refers to.\<close>

record pkg =
  T :: "string \<Rightarrow> (string \<times> tval) list \<Rightarrow> string"
  CommandColor :: "string \<Rightarrow> string"
  EntityNameColor :: "string \<Rightarrow> string"
  WarningColor :: "string \<Rightarrow> string"
  HeaderColor :: "string \<Rightarrow> string"
  cf_Name :: string
  InstanceRunning :: string
  InstanceStarting :: string
  InstanceFlapping :: string
  InstanceDown :: string
  InstanceCrashed :: string
  fmt_f_Minutes :: "int \<Rightarrow> string"
  Sprintf0 :: "string \<Rightarrow> string"

text \<open>The fields of \<^verbatim>\<open>Start\<close> that are durations.\<close>

record Start =
  LogServerConnectionTimeout :: int
  StartupTimeout :: int
  StagingTimeout :: int
  PingerThrottle :: int

text \<open>What the control task does, in the order it does it.\<close>

datatype event =
    EvSay string "string list"
  | EvWarn string "string list"
  | EvOk
  | EvSleep int
  | EvGetApp string
  | EvGetInstances string
  | EvUpdate string string
  | EvShowApp Application string string
  | EvGoTailStagingLogs string
  | EvWaitStarted
  | EvSendStop
  | EvWaitDone

record ctl =
  trace :: "event list"
  clock :: nat
  clockReads :: nat
  appCalls :: nat
  instCalls :: nat

record world =
  appRepo_GetApp :: "nat \<Rightarrow> string \<Rightarrow> Application \<times> error option"
  appRepo_Update :: "string \<Rightarrow> string \<Rightarrow> Application \<times> error option"
  appInstancesRepo_GetInstances :: "nat \<Rightarrow> string \<Rightarrow> AppInstanceFields list \<times> error option"
  appDisplayer_ShowApp :: "Application \<Rightarrow> string \<Rightarrow> string \<Rightarrow> error option"
  config_Username :: string
  tick :: "nat \<Rightarrow> nat"
  timerFired :: "nat \<Rightarrow> bool"
  startedReleased :: bool
  doneReleased :: bool

definition emit :: "event \<Rightarrow> ctl \<Rightarrow> ctl" where
  "emit e s = s\<lparr>trace := trace s @ [e]\<rparr>"

subsection \<open>fetchInstanceCount\<close>

text \<open>
  The body of the \<^verbatim>\<open>for _, inst := range instances\<close> loop with its \<^verbatim>\<open>switch\<close>:
  the first case whose constant equals the tag is taken, and a tag equal to none of the
  five leaves the count as it is.
\<close>

definition count_inst :: "pkg \<Rightarrow> AppInstanceFields \<Rightarrow> instanceCount \<Rightarrow> instanceCount" where
  "count_inst p inst count =
     (if inst_State inst = InstanceRunning p then count\<lparr>running := running count + 1\<rparr>
      else if inst_State inst = InstanceStarting p then
        (let count1 = count\<lparr>starting := starting count + 1\<rparr>
         in if inst_Details inst \<noteq> []
            then count1\<lparr>startingDetails := insert (inst_Details inst) (startingDetails count1)\<rparr>
            else count1)
      else if inst_State inst = InstanceFlapping p then count\<lparr>flapping := flapping count + 1\<rparr>
      else if inst_State inst = InstanceDown p then count\<lparr>down := down count + 1\<rparr>
      else if inst_State inst = InstanceCrashed p then count\<lparr>crashed := crashed count + 1\<rparr>
      else count)"

fun count_loop :: "pkg \<Rightarrow> AppInstanceFields list \<Rightarrow> instanceCount \<Rightarrow> instanceCount" where
  "count_loop p [] count = count"
| "count_loop p (inst # rest) count = count_loop p rest (count_inst p inst count)"

definition fetchInstanceCount ::
  "pkg \<Rightarrow> world \<Rightarrow> string \<Rightarrow> ctl \<Rightarrow> (instanceCount \<times> error option) \<times> ctl" where
  "fetchInstanceCount p w appGUID s =
     (let count = instanceCount_zero;
          (instances, apiErr) = appInstancesRepo_GetInstances w (instCalls s) appGUID;
          s1 = (emit (EvGetInstances appGUID) s)\<lparr>instCalls := Suc (instCalls s)\<rparr>
      in if apiErr \<noteq> None then ((instanceCount_zero, apiErr), s1)
         else ((count_loop p instances (count\<lparr>total := length instances\<rparr>), None), s1))"

text \<open>How many instances of a list carry a given state tag.\<close>

definition tagged :: "string \<Rightarrow> AppInstanceFields list \<Rightarrow> nat" where
  "tagged tag instances = length (filter (\<lambda>inst. inst_State inst = tag) instances)"

definition recognized :: "pkg \<Rightarrow> string \<Rightarrow> bool" where
  "recognized p tag \<longleftrightarrow>
     tag \<in> {InstanceRunning p, InstanceStarting p, InstanceFlapping p, InstanceDown p,
            InstanceCrashed p}"

text \<open>
  The five state constants are the cases of one \<^verbatim>\<open>switch\<close>, which Go compiles only
  when they differ from each other.
\<close>

definition tags_distinct :: "pkg \<Rightarrow> bool" where
  "tags_distinct p \<longleftrightarrow>
     distinct [InstanceRunning p, InstanceStarting p, InstanceFlapping p, InstanceDown p,
               InstanceCrashed p]"

subsection \<open>instancesDetails\<close>

text \<open>\<^verbatim>\<open>strings.Join\<close>.\<close>

fun strings_Join :: "string list \<Rightarrow> string \<Rightarrow> string" where
  "strings_Join [] sep = []"
| "strings_Join [x] sep = x"
| "strings_Join (x # y # rest) sep = x @ sep @ strings_Join (y # rest) sep"

text \<open>
  \<^verbatim>\<open>fmt.Sprintf\<close> and \<^verbatim>\<open>fmt.Errorf\<close> are called here with a format and no further
  argument; what the standard library makes of such a format is the field
  \<open>Sprintf0\<close> of \<open>pkg\<close>. The keys of the \<^verbatim>\<open>startingDetails\<close> map, sorted by
  \<^verbatim>\<open>sort.Strings\<close>, are the sorted list of the set.
\<close>

definition instancesDetails :: "pkg \<Rightarrow> instanceCount \<Rightarrow> string" where
  "instancesDetails p count =
     (let details0 = [Sprintf0 p (T p ''{{.RunningCount}} of {{.TotalCount}} instances running''
                         [(''RunningCount'', TInt (int (running count))),
                          (''TotalCount'', TInt (int (total count)))])];
          details1 =
            (if starting count > 0 then
               (if startingDetails count = {} then
                  details0 @ [Sprintf0 p (T p ''{{.StartingCount}} starting''
                                 [(''StartingCount'', TInt (int (starting count)))])]
                else
                  (let info = sorted_list_of_set (startingDetails count)
                   in details0 @ [Sprintf0 p (T p ''{{.StartingCount}} starting ({{.Details}})''
                                     [(''StartingCount'', TInt (int (starting count))),
                                      (''Details'', TStr (strings_Join info '', ''))])]))
             else details0);
          details2 =
            (if down count > 0
             then details1 @ [Sprintf0 p (T p ''{{.DownCount}} down''
                                 [(''DownCount'', TInt (int (down count)))])]
             else details1);
          details3 =
            (if flapping count > 0
             then details2 @ [Sprintf0 p (T p ''{{.FlappingCount}} failing''
                                 [(''FlappingCount'', TInt (int (flapping count)))])]
             else details2);
          details4 =
            (if crashed count > 0
             then details3 @ [Sprintf0 p (T p ''{{.CrashedCount}} crashed''
                                 [(''CrashedCount'', TInt (int (crashed count)))])]
             else details3)
      in strings_Join details4 '', '')"

subsection \<open>The clock and the application repository\<close>

text \<open>
  \<^verbatim>\<open>time.Now()\<close> reads the monotonic clock: the reading is the previous one plus the
  time that has passed since, which is never negative. \<^verbatim>\<open>time.Since(t0)\<close> is such a
  reading minus \<open>t0\<close>.
\<close>

definition time_Now :: "world \<Rightarrow> ctl \<Rightarrow> nat \<times> ctl" where
  "time_Now w s =
     (let t = clock s + tick w (clockReads s)
      in (t, s\<lparr>clock := t, clockReads := Suc (clockReads s)\<rparr>))"

definition time_Since :: "world \<Rightarrow> nat \<Rightarrow> ctl \<Rightarrow> int \<times> ctl" where
  "time_Since w t0 s = (let (t, s1) = time_Now w s in (int t - int t0, s1))"

definition call_GetApp :: "world \<Rightarrow> string \<Rightarrow> ctl \<Rightarrow> (Application \<times> error option) \<times> ctl" where
  "call_GetApp w guid s =
     (appRepo_GetApp w (appCalls s) guid,
      (emit (EvGetApp guid) s)\<lparr>appCalls := Suc (appCalls s)\<rparr>)"

subsection \<open>waitForInstancesToStage\<close>

text \<open>
  The condition of the \<^verbatim>\<open>for\<close> loop. \<^verbatim>\<open>&&\<close> evaluates from the left and stops at
  the first false operand, so the clock is read only while the package state is neither
  \<^verbatim>\<open>STAGED\<close> nor \<^verbatim>\<open>FAILED\<close>.
\<close>

definition stage_cond :: "Start \<Rightarrow> world \<Rightarrow> nat \<Rightarrow> Application \<Rightarrow> ctl \<Rightarrow> bool \<times> ctl" where
  "stage_cond cmd w stagingStartTime app s =
     (if PackageState app \<noteq> ''STAGED'' \<and> PackageState app \<noteq> ''FAILED''
      then (let (since, s1) = time_Since w stagingStartTime s
            in (since < StagingTimeout cmd, s1))
      else (False, s))"

text \<open>
  The loop; the result is the pair \<^verbatim>\<open>(app, err)\<close> of the two variables when the loop
  is left, by its condition or by \<^verbatim>\<open>break\<close>.
\<close>

fun stage_loop ::
  "nat \<Rightarrow> Start \<Rightarrow> world \<Rightarrow> nat \<Rightarrow> Application \<Rightarrow> ctl \<Rightarrow>
   ((Application \<times> error option) \<times> ctl) option" where
  "stage_loop 0 cmd w stagingStartTime app s =
     (let (continue, s1) = stage_cond cmd w stagingStartTime app s
      in if continue then None else Some ((app, None), s1))"
| "stage_loop (Suc n) cmd w stagingStartTime app s =
     (let (continue, s1) = stage_cond cmd w stagingStartTime app s
      in if continue then
           (let ((app1, err), s2) = call_GetApp w (GUID app) s1
            in if err \<noteq> None then Some ((app1, err), s2)
               else stage_loop n cmd w stagingStartTime app1
                      (emit (EvSleep (PingerThrottle cmd)) s2))
         else Some ((app, None), s1))"

text \<open>The \<^verbatim>\<open>if cmd.StagingTimeout == 0 { ... } else { for ... }\<close> statement.\<close>

definition stage_fetch ::
  "nat \<Rightarrow> Start \<Rightarrow> world \<Rightarrow> nat \<Rightarrow> Application \<Rightarrow> ctl \<Rightarrow>
   ((Application \<times> error option) \<times> ctl) option" where
  "stage_fetch n cmd w stagingStartTime app s =
     (if StagingTimeout cmd = 0 then Some (call_GetApp w (GUID app) s)
      else stage_loop n cmd w stagingStartTime app s)"

definition NoAppDetected_template :: string where
  "NoAppDetected_template =
     ''{{.Err}}'' @ [CHR 0x0A, CHR 0x09, CHR 0x09, CHR 0x09, CHR 0x0A] @
     ''TIP: Buildpacks are detected when the '' @ [CHR 0x22] @ ''{{.PushCommand}}'' @ [CHR 0x22] @
     '' is executed from within the directory that contains the app source code.'' @
     [CHR 0x0A, CHR 0x0A] @
     ''Use '' @ [CHR 0x27] @ ''{{.BuildpackCommand}}'' @ [CHR 0x27] @
     '' to see a list of supported buildpacks.'' @ [CHR 0x0A, CHR 0x0A] @
     ''Use '' @ [CHR 0x27] @ ''{{.Command}}'' @ [CHR 0x27] @
     '' for more in depth log information.''"

definition StagingFailed_template :: string where
  "StagingFailed_template =
     ''{{.Err}}'' @ [CHR 0x0A, CHR 0x0A] @ ''TIP: use '' @ [CHR 0x27] @ ''{{.Command}}'' @
     [CHR 0x27] @ '' for more information''"

text \<open>The two errors of a failed staging, \<^verbatim>\<open>errors.New(T(...))\<close>.\<close>

definition NoAppDetected_error :: "pkg \<Rightarrow> Application \<Rightarrow> error" where
  "NoAppDetected_error p app =
     T p NoAppDetected_template
       [(''Err'', TStr (StagingFailedReason app)),
        (''PushCommand'', TStr (CommandColor p (cf_Name p @ '' push''))),
        (''BuildpackCommand'', TStr (CommandColor p (cf_Name p @ '' buildpacks''))),
        (''Command'', TStr (CommandColor p (cf_Name p @ '' logs '' @ Name app @ '' --recent'')))]"

definition StagingFailed_error :: "pkg \<Rightarrow> Application \<Rightarrow> error" where
  "StagingFailed_error p app =
     T p StagingFailed_template
       [(''Err'', TStr (StagingFailedReason app)),
        (''Command'', TStr (CommandColor p (cf_Name p @ '' logs '' @ Name app @ '' --recent'')))]"

text \<open>Everything after the fetch: the three \<^verbatim>\<open>if\<close> statements and the last return.\<close>

definition stage_result ::
  "pkg \<Rightarrow> Start \<Rightarrow> world \<Rightarrow> nat \<Rightarrow> Application \<Rightarrow> error option \<Rightarrow> ctl \<Rightarrow>
   (bool \<times> error option) \<times> ctl" where
  "stage_result p cmd w stagingStartTime app err s =
     (if err \<noteq> None then ((False, err), s)
      else if PackageState app = ''FAILED'' then
        (let s1 = emit (EvSay [] []) s
         in if StagingFailedReason app = ''NoAppDetectedError''
            then ((False, Some (NoAppDetected_error p app)), s1)
            else ((False, Some (StagingFailed_error p app)), s1))
      else (let (since, s1) = time_Since w stagingStartTime s
            in if since \<ge> StagingTimeout cmd then ((False, None), s1)
               else ((True, None), s1)))"

definition waitForInstancesToStage ::
  "nat \<Rightarrow> pkg \<Rightarrow> Start \<Rightarrow> world \<Rightarrow> Application \<Rightarrow> ctl \<Rightarrow>
   ((bool \<times> error option) \<times> ctl) option" where
  "waitForInstancesToStage n p cmd w app s =
     (let (stagingStartTime, s0) = time_Now w s
      in case stage_fetch n cmd w stagingStartTime app s0 of
           None \<Rightarrow> None
         | Some ((app1, err), s1) \<Rightarrow> Some (stage_result p cmd w stagingStartTime app1 err s1))"

subsection \<open>waitForOneRunningInstance\<close>

definition StartTimeout_error :: "pkg \<Rightarrow> Application \<Rightarrow> error" where
  "StartTimeout_error p app =
     (let tipMsg =
            T p (''Start app timeout'' @ [CHR 0x0A, CHR 0x0A] @
                 ''TIP: Application must be listening on the right port. Instead of hard coding the port, use the $PORT environment variable.'') []
            @ [CHR 0x0A, CHR 0x0A];
          tipMsg1 =
            tipMsg @ T p (''Use '' @ [CHR 0x27] @ ''{{.Command}}'' @ [CHR 0x27] @ '' for more information'')
                       [(''Command'', TStr (CommandColor p (cf_Name p @ '' logs '' @ Name app @ '' --recent'')))]
      in tipMsg1)"

definition StartUnsuccessful_error :: "pkg \<Rightarrow> Application \<Rightarrow> error" where
  "StartUnsuccessful_error p app =
     Sprintf0 p
       (T p (''Start unsuccessful'' @ [CHR 0x0A, CHR 0x0A] @ ''TIP: use '' @ [CHR 0x27] @
             ''{{.Command}}'' @ [CHR 0x27] @ '' for more information'')
          [(''Command'', TStr (CommandColor p (cf_Name p @ '' logs '' @ Name app @ '' --recent'')))])"

text \<open>
  The \<^verbatim>\<open>for { select { case <-timer.C: ... default: ... } }\<close> loop. \<open>k\<close> counts the
  \<^verbatim>\<open>select\<close> statements executed so far; \<open>timerFired w k\<close> says whether the timer
  made by \<^verbatim>\<open>time.NewTimer(cmd.StartupTimeout)\<close> has delivered its value by the time of
  the \<open>k\<close>-th one. Each iteration uses one unit of fuel.
\<close>

fun instance_loop ::
  "nat \<Rightarrow> pkg \<Rightarrow> Start \<Rightarrow> world \<Rightarrow> Application \<Rightarrow> nat \<Rightarrow> ctl \<Rightarrow> (error option \<times> ctl) option" where
  "instance_loop 0 p cmd w app k s = None"
| "instance_loop (Suc n) p cmd w app k s =
     (if timerFired w k then Some (Some (StartTimeout_error p app), s)
      else
        (let ((count, err), s1) = fetchInstanceCount p w (GUID app) s
         in case err of
              Some e \<Rightarrow>
                instance_loop n p cmd w app (Suc k)
                  (emit (EvSleep (PingerThrottle cmd))
                     (emit (EvWarn ''Could not fetch instance count: %s'' [e]) s1))
            | None \<Rightarrow>
                (let s2 = emit (EvSay (instancesDetails p count) []) s1
                 in if running count > 0 then Some (None, s2)
                    else if flapping count > 0 \<or> crashed count > 0
                    then Some (Some (StartUnsuccessful_error p app), s2)
                    else instance_loop n p cmd w app (Suc k)
                           (emit (EvSleep (PingerThrottle cmd)) s2))))"

definition waitForOneRunningInstance ::
  "nat \<Rightarrow> pkg \<Rightarrow> Start \<Rightarrow> world \<Rightarrow> Application \<Rightarrow> ctl \<Rightarrow> (error option \<times> ctl) option" where
  "waitForOneRunningInstance n p cmd w app s = instance_loop n p cmd w app 0 s"

text \<open>
  Notions used to state the poller's properties. \<open>snapshot p w appGUID j\<close> is what the
  \<open>j\<close>-th call of \<^verbatim>\<open>GetInstances\<close> makes \<^verbatim>\<open>fetchInstanceCount\<close> return. An
  iteration is undecided when the timer has not fired at its \<^verbatim>\<open>select\<close> and its fetch
  either fails or shows no running, no flapping and no crashed instance: the loop goes on
  after it. \<open>retry_events\<close> is what the control task does in consecutive iterations
  whose fetches fail with the given errors.
\<close>

definition snapshot :: "pkg \<Rightarrow> world \<Rightarrow> string \<Rightarrow> nat \<Rightarrow> instanceCount \<times> error option" where
  "snapshot p w appGUID j =
     (let (instances, apiErr) = appInstancesRepo_GetInstances w j appGUID
      in if apiErr \<noteq> None then (instanceCount_zero, apiErr)
         else (count_loop p instances (instanceCount_zero\<lparr>total := length instances\<rparr>), None))"

definition undecided :: "pkg \<Rightarrow> world \<Rightarrow> string \<Rightarrow> nat \<Rightarrow> nat \<Rightarrow> bool" where
  "undecided p w appGUID j k \<longleftrightarrow>
     \<not> timerFired w k \<and>
     (let (count, err) = snapshot p w appGUID j
      in err \<noteq> None \<or> (running count = 0 \<and> flapping count = 0 \<and> crashed count = 0))"


subsection \<open>TailStagingLogs\<close>

datatype ConnectionType =
  NoConnection | ConnectionWasEstablished | ConnectionWasClosed | StoppedTrying

definition LogMessageTypeStaging :: string where
  "LogMessageTypeStaging = ''STG''"

text \<open>A \<^verbatim>\<open>logs.Loggable\<close>: what \<^verbatim>\<open>GetSourceName()\<close> and \<^verbatim>\<open>ToSimpleLog()\<close> return.\<close>

record Loggable =
  GetSourceName :: string
  ToSimpleLog :: string

text \<open>
  What the tailer reacts to: the log repository calls the \<^verbatim>\<open>onConnect\<close> closure, or
  one of the four channels of the \<^verbatim>\<open>select\<close> delivers. A receive from \<^verbatim>\<open>c\<close> or
  \<^verbatim>\<open>e\<close> carries \<open>None\<close> when the channel is closed (\<^verbatim>\<open>ok\<close> is false).
\<close>

datatype signal =
    OnConnect
  | TimerC
  | LogC "Loggable option"
  | ErrC "error option"
  | StopChan

text \<open>
  Two goroutines work on the variable \<^verbatim>\<open>connectionStatus\<close>, and nothing synchronises
  them: the one that runs the \<^verbatim>\<open>for\<close>/\<^verbatim>\<open>select\<close> loop of \<^verbatim>\<open>TailStagingLogs\<close>, and
  the one started by \<^verbatim>\<open>go cmd.logRepo.TailLogsFor(app.GUID, onConnect, c, e)\<close>, which
  calls the closure. So neither the closure nor a branch of the \<^verbatim>\<open>select\<close> is one
  step. A step of the model holds at most one access to \<^verbatim>\<open>connectionStatus\<close>, and a
  schedule, a list of steps, says in which order the two goroutines take theirs; the
  accesses take effect in that order:
  \<^item> \<open>Enter OnConnect\<close>: the repository calls the closure, which tests its guard;
  \<^item> \<open>ClosureBody\<close>: the closure, its guard passed, writes the status and signals ready;
  \<^item> \<open>Enter sg\<close> for a channel: the \<^verbatim>\<open>select\<close> receives from the channel and the
    branch tests its first guard;
  \<^item> \<open>LoopBody\<close>: the loop goroutine runs the rest of the branch it is in.
\<close>

datatype step = Enter signal | LoopBody | ClosureBody

text \<open>
  Where the loop goroutine stands: at the \<^verbatim>\<open>select\<close>, inside the timer branch after
  \<^verbatim>\<open>connectionStatus == NoConnection\<close> held, inside the error branch after
  \<^verbatim>\<open>connectionStatus != ConnectionWasClosed\<close> held, inside the stop branch after
  \<^verbatim>\<open>connectionStatus == ConnectionWasEstablished\<close> held, or returned.
\<close>

datatype loop_pc = AtSelect | InTimer | InErr error | InStop | Returned

datatype tail_event =
    TailSay string "string list"
  | TailWarn string "string list"
  | TailClose

text \<open>
  The tailer's state: the variable \<^verbatim>\<open>connectionStatus\<close>, where the loop goroutine
  stands, whether the closure stands between its guard and its body, how often
  \<^verbatim>\<open>startWait.Done()\<close> (the ready signal) and \<^verbatim>\<open>doneWait.Done()\<close> (the done signal)
  have been called, and what the tailer has done to the user interface and the log
  repository.
\<close>

record tailer =
  connectionStatus :: ConnectionType
  loop_at :: loop_pc
  closure_entered :: bool
  startWait_Done :: nat
  doneWait_Done :: nat
  tail_trace :: "tail_event list"

definition tailer_init :: tailer where
  "tailer_init =
     \<lparr>connectionStatus = NoConnection, loop_at = AtSelect, closure_entered = False,
      startWait_Done = 0, doneWait_Done = 0, tail_trace = []\<rparr>"

definition tail_emit :: "tail_event \<Rightarrow> tailer \<Rightarrow> tailer" where
  "tail_emit e t = t\<lparr>tail_trace := tail_trace t @ [e]\<rparr>"

text \<open>The \<^verbatim>\<open>for\<close> loop of \<^verbatim>\<open>TailStagingLogs\<close> has not returned.\<close>

definition looping :: "tailer \<Rightarrow> bool" where
  "looping t \<longleftrightarrow> loop_at t \<noteq> Returned"

text \<open>A connection has been made: the status is established or, after a stop, closed.\<close>

definition connected :: "tailer \<Rightarrow> bool" where
  "connected t \<longleftrightarrow>
     connectionStatus t = ConnectionWasEstablished \<or> connectionStatus t = ConnectionWasClosed"

text \<open>
  The closure \<^verbatim>\<open>onConnect\<close>: the test \<^verbatim>\<open>connectionStatus != StoppedTrying\<close>, and
  then the assignment and \<^verbatim>\<open>startWait.Done()\<close>. The repository makes its calls one
  after the other: a call while an earlier one stands before its body is not taken.
\<close>

definition onConnect_guard :: "tailer \<Rightarrow> tailer" where
  "onConnect_guard t =
     (if closure_entered t then t
      else if connectionStatus t \<noteq> StoppedTrying then t\<lparr>closure_entered := True\<rparr>
      else t)"

definition onConnect_body :: "tailer \<Rightarrow> tailer" where
  "onConnect_body t =
     (if closure_entered t
      then t\<lparr>connectionStatus := ConnectionWasEstablished,
              startWait_Done := Suc (startWait_Done t),
              closure_entered := False\<rparr>
      else t)"

text \<open>\<^verbatim>\<open>return\<close> inside the loop: the deferred \<^verbatim>\<open>doneWait.Done()\<close> runs.\<close>

definition tail_return :: "tailer \<Rightarrow> tailer" where
  "tail_return t = t\<lparr>loop_at := Returned, doneWait_Done := Suc (doneWait_Done t)\<rparr>"

text \<open>
  The \<^verbatim>\<open>select\<close> receives from a channel, and the branch runs up to and including its
  first test of \<^verbatim>\<open>connectionStatus\<close>. The connect callback is not a channel of the
  \<^verbatim>\<open>select\<close>; the last equation only makes the function total.
\<close>

fun tail_select :: "pkg \<Rightarrow> signal \<Rightarrow> tailer \<Rightarrow> tailer" where
  "tail_select p TimerC t =
     (if connectionStatus t = NoConnection then t\<lparr>loop_at := InTimer\<rparr> else t)"
| "tail_select p (LogC None) t = tail_return t"
| "tail_select p (LogC (Some msg)) t =
     (if GetSourceName msg = LogMessageTypeStaging
      then tail_emit (TailSay (ToSimpleLog msg) []) t
      else t)"
| "tail_select p (ErrC None) t = t"
| "tail_select p (ErrC (Some err)) t =
     (if connectionStatus t \<noteq> ConnectionWasClosed then t\<lparr>loop_at := InErr err\<rparr> else t)"
| "tail_select p StopChan t =
     (if connectionStatus t = ConnectionWasEstablished then t\<lparr>loop_at := InStop\<rparr>
      else tail_return t)"
| "tail_select p OnConnect t = t"

text \<open>
  The rest of the branch the loop goroutine is in. In the timer branch: the assignment of
  \<^verbatim>\<open>StoppedTrying\<close>, the warning, \<^verbatim>\<open>startWait.Done()\<close> and \<^verbatim>\<open>return\<close>. In the
  error branch: the warning, the error text, the test
  \<^verbatim>\<open>connectionStatus == NoConnection\<close> with its \<^verbatim>\<open>startWait.Done()\<close>, and
  \<^verbatim>\<open>return\<close>. In the stop branch: the assignment of \<^verbatim>\<open>ConnectionWasClosed\<close> and
  \<^verbatim>\<open>cmd.logRepo.Close()\<close>, after which the loop is at the \<^verbatim>\<open>select\<close> again. Each
  holds one access to \<^verbatim>\<open>connectionStatus\<close>; the statements around it touch nothing
  that the closure reads or writes.
\<close>

definition tail_branch :: "pkg \<Rightarrow> tailer \<Rightarrow> tailer" where
  "tail_branch p t =
     (case loop_at t of
        InTimer \<Rightarrow>
          tail_return
            ((tail_emit (TailWarn ''timeout connecting to log server, no log will be shown'' [])
                (t\<lparr>connectionStatus := StoppedTrying\<rparr>))
             \<lparr>startWait_Done := Suc (startWait_Done t)\<rparr>)
      | InErr err \<Rightarrow>
          (let t1 = tail_emit (TailSay ''%s'' [err])
                      (tail_emit (TailWarn (T p ''Warning: error tailing logs'' []) []) t);
               t2 = (if connectionStatus t1 = NoConnection
                     then t1\<lparr>startWait_Done := Suc (startWait_Done t1)\<rparr>
                     else t1)
           in tail_return t2)
      | InStop \<Rightarrow>
          (tail_emit TailClose (t\<lparr>connectionStatus := ConnectionWasClosed\<rparr>))
          \<lparr>loop_at := AtSelect\<rparr>
      | AtSelect \<Rightarrow> t
      | Returned \<Rightarrow> t)"

text \<open>
  One step of a schedule. The closure is entered whenever the repository calls it, also
  after the loop has returned; a channel is received from only while the loop goroutine
  is at the \<^verbatim>\<open>select\<close>. A step that the goroutine concerned cannot take where it stands
  leaves the state as it is.
\<close>

definition tail_step :: "pkg \<Rightarrow> tailer \<Rightarrow> step \<Rightarrow> tailer" where
  "tail_step p t st =
     (case st of
        Enter sg \<Rightarrow>
          (if sg = OnConnect then onConnect_guard t
           else if loop_at t = AtSelect then tail_select p sg t
           else t)
      | LoopBody \<Rightarrow> tail_branch p t
      | ClosureBody \<Rightarrow> onConnect_body t)"

definition TailStagingLogs :: "pkg \<Rightarrow> step list \<Rightarrow> tailer" where
  "TailStagingLogs p steps = foldl (tail_step p) tailer_init steps"

text \<open>
  A signal handled as a whole, with no step of the other goroutine in between: the call
  of the closure up to its return, or the receive from a channel up to the end of its
  branch.
\<close>

definition whole :: "signal \<Rightarrow> step list" where
  "whole sg = (if sg = OnConnect then [Enter OnConnect, ClosureBody] else [Enter sg, LoopBody])"

subsection \<open>WatchStaging and ApplicationStart\<close>

text \<open>
  \<^verbatim>\<open>loggingStartedWait.Wait()\<close> returns when the tailer has called
  \<^verbatim>\<open>startWait.Done()\<close>, and \<^verbatim>\<open>loggingDoneWait.Wait()\<close> when it has called
  \<^verbatim>\<open>doneWait.Done()\<close>; \<open>startedReleased w\<close> and \<open>doneReleased w\<close> say whether
  that ever happens. The send on \<^verbatim>\<open>stopChan\<close>, a channel with a buffer of one that
  nothing else writes to, does not block.
\<close>

definition WatchStaging ::
  "nat \<Rightarrow> pkg \<Rightarrow> Start \<Rightarrow> world \<Rightarrow> Application \<Rightarrow> string \<Rightarrow> string \<Rightarrow>
   (Application \<Rightarrow> ctl \<Rightarrow> (Application \<times> error option) \<times> ctl) \<Rightarrow> ctl \<Rightarrow>
   ((Application \<times> error option) \<times> ctl) option" where
  "WatchStaging n p cmd w app orgName spaceName start s =
     (let s1 = emit (EvGoTailStagingLogs (GUID app)) s;
          s2 = emit EvWaitStarted s1
      in if \<not> startedReleased w then None
         else
           (let ((updatedApp, err), s3) = start app s2
            in if err \<noteq> None then Some ((Application_zero, err), s3)
               else
                 (case waitForInstancesToStage n p cmd w updatedApp s3 of
                    None \<Rightarrow> None
                  | Some ((isStaged, err1), s4) \<Rightarrow>
                      if err1 \<noteq> None then Some ((Application_zero, err1), s4)
                      else
                        (let s5 = emit EvSendStop s4;
                             s6 = emit EvWaitDone s5
                         in if \<not> doneReleased w then None
                            else
                              (let s7 = emit (EvSay [] []) s6
                               in if \<not> isStaged then
                                    Some ((Application_zero,
                                           Some (Name app @ '' failed to stage within '' @
                                                 fmt_f_Minutes p (StagingTimeout cmd) @
                                                 '' minutes'')), s7)
                                  else
                                    (case waitForOneRunningInstance n p cmd w updatedApp s7 of
                                       None \<Rightarrow> None
                                     | Some (err2, s8) \<Rightarrow>
                                         if err2 \<noteq> None then Some ((Application_zero, err2), s8)
                                         else
                                           (let s9 = emit EvOk
                                                       (emit (EvSay [] [])
                                                          (emit (EvSay (HeaderColor p
                                                             (T p ([CHR 0x0A] @ ''App started'' @ [CHR 0x0A]) [])) [])
                                                             s8));
                                                ((startedApp, err3), s10) =
                                                   call_GetApp w (GUID updatedApp) s9
                                            in if err3 \<noteq> None
                                               then Some ((Application_zero, err3), s10)
                                               else
                                                 (let appStartCommand =
                                                        (if Command app = []
                                                         then DetectedStartCommand startedApp
                                                         else Command startedApp);
                                                      s11 = emit (EvSay
                                                        (T p ([CHR 0x0A] @
                                                              ''App {{.AppName}} was started using this command `{{.Command}}`'' @
                                                              [CHR 0x0A])
                                                           [(''AppName'', TStr (EntityNameColor p (Name startedApp))),
                                                            (''Command'', TStr appStartCommand)]) []) s10;
                                                      err4 = appDisplayer_ShowApp w startedApp orgName spaceName;
                                                      s12 = emit (EvShowApp startedApp orgName spaceName) s11
                                                  in if err4 \<noteq> None
                                                     then Some ((Application_zero, err4), s12)
                                                     else Some ((updatedApp, None), s12)))))))))"

text \<open>The closure that \<^verbatim>\<open>ApplicationStart\<close> passes to \<^verbatim>\<open>WatchStaging\<close>.\<close>

definition start_closure ::
  "pkg \<Rightarrow> world \<Rightarrow> string \<Rightarrow> string \<Rightarrow> Application \<Rightarrow> ctl \<Rightarrow>
   (Application \<times> error option) \<times> ctl" where
  "start_closure p w orgName spaceName app s =
     (let s1 = emit (EvSay
                 (T p ''Starting app {{.AppName}} in org {{.OrgName}} / space {{.SpaceName}} as {{.CurrentUser}}...''
                    [(''AppName'', TStr (EntityNameColor p (Name app))),
                     (''OrgName'', TStr (EntityNameColor p orgName)),
                     (''SpaceName'', TStr (EntityNameColor p spaceName)),
                     (''CurrentUser'', TStr (EntityNameColor p (config_Username w)))]) []) s;
          state = ''STARTED''
      in (appRepo_Update w (GUID app) state, emit (EvUpdate (GUID app) state) s1))"

definition ApplicationStart ::
  "nat \<Rightarrow> pkg \<Rightarrow> Start \<Rightarrow> world \<Rightarrow> Application \<Rightarrow> string \<Rightarrow> string \<Rightarrow> ctl \<Rightarrow>
   ((Application \<times> error option) \<times> ctl) option" where
  "ApplicationStart n p cmd w app orgName spaceName s =
     (if State app = ''started''
      then Some ((Application_zero, None),
                 emit (EvSay (WarningColor p (T p ''App '' [] @ Name app @ T p '' is already started'' [])) []) s)
      else WatchStaging n p cmd w app orgName spaceName (start_closure p w orgName spaceName) s)"

subsection \<open>Example collaborators\<close>

text \<open>
  Concrete collaborators on which the theorems below are run: a package environment that
  leaves templates untranslated and text uncoloured and knows the \<^verbatim>\<open>%f\<close> rendering of
  the three staging deadlines used here, the default durations of
  \<^verbatim>\<open>SetDependency\<close> in nanoseconds, a stopped application whose package is pending,
  and a world in which every call succeeds.
\<close>

definition ex_pkg :: pkg where
  "ex_pkg =
     \<lparr>T = (\<lambda>template args. template),
      CommandColor = (\<lambda>x. x), EntityNameColor = (\<lambda>x. x), WarningColor = (\<lambda>x. x),
      HeaderColor = (\<lambda>x. x), cf_Name = ''cf'',
      InstanceRunning = ''running'', InstanceStarting = ''starting'',
      InstanceFlapping = ''flapping'', InstanceDown = ''down'', InstanceCrashed = ''crashed'',
      fmt_f_Minutes =
        (\<lambda>d. if d = 900000000000 then ''15.000000''
             else if d = 60000000000 then ''1.000000''
             else if d = 0 then ''0.000000'' else []),
      Sprintf0 = (\<lambda>x. x)\<rparr>"

definition ex_cmd :: Start where
  "ex_cmd =
     \<lparr>LogServerConnectionTimeout = 20000000000, StartupTimeout = 300000000000,
      StagingTimeout = 900000000000, PingerThrottle = 5000000000\<rparr>"

definition ex_app :: Application where
  "ex_app =
     \<lparr>GUID = ''app-guid'', Name = ''my-app'', State = ''stopped'', PackageState = ''PENDING'',
      StagingFailedReason = [], Command = [], DetectedStartCommand = []\<rparr>"

definition ex_inst :: "string \<Rightarrow> AppInstanceFields" where
  "ex_inst tag = \<lparr>inst_State = tag, inst_Details = []\<rparr>"

definition ctl_init :: ctl where
  "ctl_init = \<lparr>trace = [], clock = 0, clockReads = 0, appCalls = 0, instCalls = 0\<rparr>"

text \<open>
  The package is staged at the first fetch; the first instance snapshot shows one
  starting instance, the later ones a running instance; six seconds pass between two
  readings of the clock; the start-up timer does not fire; the tailer signals ready
  and done.
\<close>

definition ex_world :: world where
  "ex_world =
     \<lparr>appRepo_GetApp = (\<lambda>k guid. (ex_app\<lparr>PackageState := ''STAGED''\<rparr>, None)),
      appRepo_Update = (\<lambda>guid state. (ex_app\<lparr>State := state\<rparr>, None)),
      appInstancesRepo_GetInstances =
        (\<lambda>k guid. if k = 0 then ([ex_inst ''starting''], None) else ([ex_inst ''running''], None)),
      appDisplayer_ShowApp = (\<lambda>app orgName spaceName. None),
      config_Username = ''admin'',
      tick = (\<lambda>k. 6000000000),
      timerFired = (\<lambda>k. False),
      startedReleased = True,
      doneReleased = True\<rparr>"

text \<open>Staging fails with the given reason.\<close>

definition ex_world_failed :: "string \<Rightarrow> world" where
  "ex_world_failed reason =
     ex_world\<lparr>appRepo_GetApp :=
       (\<lambda>k guid. (ex_app\<lparr>PackageState := ''FAILED'', StagingFailedReason := reason\<rparr>, None))\<rparr>"

text \<open>The package stays pending, and 500 seconds pass between two readings of the clock.\<close>

definition ex_world_pending :: world where
  "ex_world_pending =
     ex_world\<lparr>appRepo_GetApp := (\<lambda>k guid. (ex_app, None)), tick := (\<lambda>k. 500000000000)\<rparr>"

text \<open>
  A staging deadline of one minute. The first fetch shows a pending package; the loop
  condition is checked for the second time at 58 seconds, the second fetch shows the
  package staged, and by the next reading of the clock, after the sleep that follows the
  fetch, 63 seconds have passed.
\<close>

definition ex_cmd_minute :: Start where
  "ex_cmd_minute = ex_cmd\<lparr>StagingTimeout := 60000000000\<rparr>"

definition ex_world_late :: world where
  "ex_world_late =
     ex_world\<lparr>appRepo_GetApp :=
                (\<lambda>k guid. if k = 0 then (ex_app, None)
                           else (ex_app\<lparr>PackageState := ''STAGED''\<rparr>, None)),
              tick := (\<lambda>k. if k = 2 then 58000000000 else if k = 3 then 5000000000 else 0)\<rparr>"

text \<open>The second instance snapshot shows a crashed instance.\<close>

definition ex_world_crash :: world where
  "ex_world_crash =
     ex_world\<lparr>appInstancesRepo_GetInstances :=
       (\<lambda>k guid. if k = 0 then ([ex_inst ''starting''], None)
                  else ([ex_inst ''crashed'', ex_inst ''starting''], None))\<rparr>"

text \<open>The first two fetches of the instances fail.\<close>

definition ex_world_flaky :: world where
  "ex_world_flaky =
     ex_world\<lparr>appInstancesRepo_GetInstances :=
       (\<lambda>k guid. if k < 2 then ([], Some ''connection reset'')
                  else ([ex_inst ''running''], None))\<rparr>"

text \<open>
  The start operation fails, or the first fetch of the stage poller fails; in both worlds
  the tailer never signals done.
\<close>

definition ex_world_start_error :: world where
  "ex_world_start_error =
     ex_world\<lparr>appRepo_Update := (\<lambda>guid state. (Application_zero, Some ''update failed'')),
              doneReleased := False\<rparr>"

definition ex_world_fetch_error :: world where
  "ex_world_fetch_error =
     ex_world\<lparr>appRepo_GetApp := (\<lambda>k guid. (Application_zero, Some ''fetch failed'')),
              doneReleased := False\<rparr>"

section \<open>Properties\<close>

subsection \<open>Unfolding the examples\<close>

lemmas ex_defs = ex_pkg_def ex_cmd_def ex_app_def ex_world_def ctl_init_def ex_inst_def
  ex_world_failed_def ex_world_pending_def ex_cmd_minute_def ex_world_late_def
  ex_world_crash_def ex_world_flaky_def ex_world_start_error_def ex_world_fetch_error_def
lemmas stage_defs = waitForInstancesToStage_def stage_fetch_def stage_result_def stage_cond_def
  time_Now_def time_Since_def call_GetApp_def emit_def Let_def

lemmas instance_defs = waitForOneRunningInstance_def fetchInstanceCount_def snapshot_def
  undecided_def count_inst_def instanceCount_zero_def instancesDetails_def
  StartUnsuccessful_error_def emit_def Let_def

lemmas tail_defs = TailStagingLogs_def tail_step_def tail_branch_def onConnect_guard_def
  onConnect_body_def tail_return_def tail_emit_def tailer_init_def looping_def whole_def
  LogMessageTypeStaging_def

lemmas watch_defs = ApplicationStart_def WatchStaging_def start_closure_def

subsection \<open>The instance counter\<close>

lemma count_loop_total: "total (count_loop p instances count) = total count"
  by (induction instances arbitrary: count) (simp_all add: count_inst_def Let_def)

lemma count_loop_running:
  "tags_distinct p \<Longrightarrow>
   running (count_loop p instances count) = running count + tagged (InstanceRunning p) instances"
  by (induction instances arbitrary: count)
     (simp_all add: count_inst_def Let_def tagged_def tags_distinct_def)

lemma count_loop_starting:
  "tags_distinct p \<Longrightarrow>
   starting (count_loop p instances count) = starting count + tagged (InstanceStarting p) instances"
  by (induction instances arbitrary: count)
     (simp_all add: count_inst_def Let_def tagged_def tags_distinct_def)

lemma count_loop_flapping:
  "tags_distinct p \<Longrightarrow>
   flapping (count_loop p instances count) = flapping count + tagged (InstanceFlapping p) instances"
  by (induction instances arbitrary: count)
     (simp_all add: count_inst_def Let_def tagged_def tags_distinct_def)

lemma count_loop_down:
  "tags_distinct p \<Longrightarrow>
   down (count_loop p instances count) = down count + tagged (InstanceDown p) instances"
  by (induction instances arbitrary: count)
     (simp_all add: count_inst_def Let_def tagged_def tags_distinct_def)

lemma count_loop_crashed:
  "tags_distinct p \<Longrightarrow>
   crashed (count_loop p instances count) = crashed count + tagged (InstanceCrashed p) instances"
  by (induction instances arbitrary: count)
     (simp_all add: count_inst_def Let_def tagged_def tags_distinct_def)

lemma count_loop_unrecognized:
  "tags_distinct p \<Longrightarrow>
   length instances =
     tagged (InstanceRunning p) instances + tagged (InstanceStarting p) instances +
     tagged (InstanceFlapping p) instances + tagged (InstanceDown p) instances +
     tagged (InstanceCrashed p) instances +
     length (filter (\<lambda>inst. \<not> recognized p (inst_State inst)) instances)"
proof (induction instances)
  case Nil
  show ?case by (simp add: tagged_def)
next
  case (Cons inst rest)
  have ne: "InstanceRunning p \<noteq> InstanceStarting p" "InstanceRunning p \<noteq> InstanceFlapping p"
    "InstanceRunning p \<noteq> InstanceDown p" "InstanceRunning p \<noteq> InstanceCrashed p"
    "InstanceStarting p \<noteq> InstanceFlapping p" "InstanceStarting p \<noteq> InstanceDown p"
    "InstanceStarting p \<noteq> InstanceCrashed p" "InstanceFlapping p \<noteq> InstanceDown p"
    "InstanceFlapping p \<noteq> InstanceCrashed p" "InstanceDown p \<noteq> InstanceCrashed p"
    using Cons.prems by (simp_all add: tags_distinct_def)
  note IH = Cons.IH [OF Cons.prems]
  consider (r) "inst_State inst = InstanceRunning p"
    | (s) "inst_State inst = InstanceStarting p"
    | (f) "inst_State inst = InstanceFlapping p"
    | (d) "inst_State inst = InstanceDown p"
    | (c) "inst_State inst = InstanceCrashed p"
    | (u) "\<not> recognized p (inst_State inst)"
    unfolding recognized_def by blast
  then show ?case
  proof cases
    case r
    then show ?thesis using IH by (simp add: tagged_def recognized_def ne ne [symmetric])
  next
    case s
    then show ?thesis using IH by (simp add: tagged_def recognized_def ne ne [symmetric])
  next
    case f
    then show ?thesis using IH by (simp add: tagged_def recognized_def ne ne [symmetric])
  next
    case d
    then show ?thesis using IH by (simp add: tagged_def recognized_def ne ne [symmetric])
  next
    case c
    then show ?thesis using IH by (simp add: tagged_def recognized_def ne ne [symmetric])
  next
    case u
    then have "inst_State inst \<noteq> InstanceRunning p" "inst_State inst \<noteq> InstanceStarting p"
      "inst_State inst \<noteq> InstanceFlapping p" "inst_State inst \<noteq> InstanceDown p"
      "inst_State inst \<noteq> InstanceCrashed p"
      by (simp_all add: recognized_def)
    then show ?thesis using u IH by (simp add: tagged_def)
  qed
qed

text \<open>
  Claim C9. For every instance list that the repository returns, the snapshot computed by
  \<^verbatim>\<open>fetchInstanceCount\<close> has \<open>total\<close> equal to the length of the list and each of
  the five per-state counts equal to the number of instances carrying that state tag.
  Instances whose tag is none of the five are counted in \<open>total\<close> only: \<open>total\<close> is
  the sum of the five counts and of the number of unrecognized instances.
\<close>

theorem fetchInstanceCount_snapshot:
  assumes "tags_distinct p"
    and "appInstancesRepo_GetInstances w (instCalls s) appGUID = (instances, None)"
  shows "\<exists>count s1. fetchInstanceCount p w appGUID s = ((count, None), s1) \<and>
           total count = length instances \<and>
           running count = tagged (InstanceRunning p) instances \<and>
           starting count = tagged (InstanceStarting p) instances \<and>
           flapping count = tagged (InstanceFlapping p) instances \<and>
           down count = tagged (InstanceDown p) instances \<and>
           crashed count = tagged (InstanceCrashed p) instances \<and>
           total count =
             running count + starting count + flapping count + down count + crashed count +
             length (filter (\<lambda>inst. \<not> recognized p (inst_State inst)) instances)"
proof -
  define c where "c = count_loop p instances (instanceCount_zero\<lparr>total := length instances\<rparr>)"
  have run: "fetchInstanceCount p w appGUID s =
               ((c, None), (emit (EvGetInstances appGUID) s)\<lparr>instCalls := Suc (instCalls s)\<rparr>)"
    using assms(2) by (simp add: fetchInstanceCount_def Let_def c_def)
  have t: "total c = length instances"
    by (simp add: c_def count_loop_total)
  have r: "running c = tagged (InstanceRunning p) instances"
    using assms(1) by (simp add: c_def count_loop_running instanceCount_zero_def)
  have st: "starting c = tagged (InstanceStarting p) instances"
    using assms(1) by (simp add: c_def count_loop_starting instanceCount_zero_def)
  have f: "flapping c = tagged (InstanceFlapping p) instances"
    using assms(1) by (simp add: c_def count_loop_flapping instanceCount_zero_def)
  have d: "down c = tagged (InstanceDown p) instances"
    using assms(1) by (simp add: c_def count_loop_down instanceCount_zero_def)
  have cr: "crashed c = tagged (InstanceCrashed p) instances"
    using assms(1) by (simp add: c_def count_loop_crashed instanceCount_zero_def)
  have sum: "total c = running c + starting c + flapping c + down c + crashed c +
               length (filter (\<lambda>inst. \<not> recognized p (inst_State inst)) instances)"
    using count_loop_unrecognized [OF assms(1), of instances] t r st f d cr by linarith
  show ?thesis
    using run t r st f d cr sum by blast
qed

theorem fetchInstanceCount_snapshot_witness:
  "fst (fst (fetchInstanceCount ex_pkg
       (ex_world\<lparr>appInstancesRepo_GetInstances :=
          (\<lambda>k guid. ([ex_inst ''running'', ex_inst ''evacuating'', ex_inst ''crashed'',
                       ex_inst ''running''], None))\<rparr>)
       ''app-guid'' ctl_init)) =
   \<lparr>running = 2, starting = 0, startingDetails = {}, flapping = 0, down = 0, crashed = 1,
    total = 4\<rparr>"
proof -
  let ?w = "ex_world\<lparr>appInstancesRepo_GetInstances :=
          (\<lambda>k guid. ([ex_inst ''running'', ex_inst ''evacuating'', ex_inst ''crashed'',
                       ex_inst ''running''], None))\<rparr>"
  have d: "tags_distinct ex_pkg"
    by (simp add: tags_distinct_def ex_pkg_def)
  have g: "appInstancesRepo_GetInstances ?w (instCalls ctl_init) ''app-guid'' =
             ([ex_inst ''running'', ex_inst ''evacuating'', ex_inst ''crashed'',
               ex_inst ''running''], None)"
    by simp
  from fetchInstanceCount_snapshot [OF d g]
  obtain count s1 where
    "fetchInstanceCount ex_pkg ?w ''app-guid'' ctl_init = ((count, None), s1)"
    "total count = 4" "running count = 2" "starting count = 0" "flapping count = 0"
    "down count = 0" "crashed count = 1"
    by (auto simp: tagged_def ex_inst_def ex_pkg_def)
  moreover have "startingDetails (fst (fst (fetchInstanceCount ex_pkg ?w ''app-guid'' ctl_init))) = {}"
    by (simp add: fetchInstanceCount_def ex_inst_def ex_pkg_def count_inst_def instanceCount_zero_def)
  ultimately show ?thesis
    by (cases count) simp
qed

subsection \<open>ApplicationStart\<close>

text \<open>
  Claim C8. For an application whose state is already \<^verbatim>\<open>started\<close>,
  \<^verbatim>\<open>ApplicationStart\<close> returns at once with a nil error (and the zero application),
  whatever the fuel and the world. All it does is say one warning-coloured line: the
  trace gains that single event, so the tailer is not launched, nothing waits on or
  signals it, and neither poller fetches anything.
\<close>

theorem ApplicationStart_already_started:
  assumes "State app = ''started''"
  shows "ApplicationStart n p cmd w app orgName spaceName s =
           Some ((Application_zero, None),
                 s\<lparr>trace := trace s @
                    [EvSay (WarningColor p (T p ''App '' [] @ Name app @ T p '' is already started'' [])) []]\<rparr>)"
  using assms by (simp add: ApplicationStart_def emit_def)

theorem ApplicationStart_already_started_witness:
  "ApplicationStart 0 ex_pkg ex_cmd ex_world (ex_app\<lparr>State := ''started''\<rparr>) ''org'' ''space'' ctl_init =
     Some ((Application_zero, None),
           ctl_init\<lparr>trace := [EvSay ''App my-app is already started'' []]\<rparr>)"
proof -
  have st: "State (ex_app\<lparr>State := ''started''\<rparr>) = ''started''" by simp
  show ?thesis
    using ApplicationStart_already_started [OF st, of 0 ex_pkg ex_cmd ex_world "''org''" "''space''" ctl_init]
    by (simp add: ex_pkg_def ex_app_def ctl_init_def)
qed

subsection \<open>waitForInstancesToStage\<close>

text \<open>
  When the loop is left with a pending package and no error, the last reading of the clock
  was at or past the deadline.
\<close>

lemma stage_cond_pending:
  "PackageState app \<noteq> ''STAGED'' \<Longrightarrow> PackageState app \<noteq> ''FAILED'' \<Longrightarrow>
   stage_cond cmd w t0 app s = (False, s1) \<Longrightarrow> StagingTimeout cmd \<le> int (clock s1) - int t0"
  by (auto simp: stage_cond_def time_Since_def time_Now_def Let_def)

lemma stage_loop_deadline:
  "stage_loop n cmd w t0 app s = Some ((app1, None), s1) \<Longrightarrow>
   PackageState app1 \<noteq> ''STAGED'' \<Longrightarrow> PackageState app1 \<noteq> ''FAILED'' \<Longrightarrow>
   StagingTimeout cmd \<le> int (clock s1) - int t0"
proof (induction n arbitrary: app s)
  case 0
  obtain continue s' where c: "stage_cond cmd w t0 app s = (continue, s')"
    by (cases "stage_cond cmd w t0 app s")
  with "0.prems"(1) have "\<not> continue" "app1 = app" "s1 = s'"
    by (auto split: if_splits)
  with c "0.prems"(2,3) show ?case
    by (simp add: stage_cond_pending [of app cmd w t0 s s'])
next
  case (Suc n)
  obtain continue s' where c: "stage_cond cmd w t0 app s = (continue, s')"
    by (cases "stage_cond cmd w t0 app s")
  show ?case
  proof (cases continue)
    case False
    with c Suc.prems(1) have "app1 = app" "s1 = s'"
      by auto
    with c False Suc.prems(2,3) show ?thesis
      by (simp add: stage_cond_pending [of app cmd w t0 s s'])
  next
    case True
    obtain app2 err s2 where g: "call_GetApp w (GUID app) s' = ((app2, err), s2)"
      by (cases "call_GetApp w (GUID app) s'") auto
    with c True Suc.prems(1) have "err = None"
      and "stage_loop n cmd w t0 app2 (emit (EvSleep (PingerThrottle cmd)) s2) = Some ((app1, None), s1)"
      by (auto split: if_splits)
    then show ?thesis
      using Suc.IH Suc.prems(2,3) by blast
  qed
qed

text \<open>
  Claim C2, as the specification states it: with a staging deadline of zero the poller
  fetches once and returns staged = (package state is \<^verbatim>\<open>STAGED\<close>) with a nil error.
  It does not: when the single fetch shows a staged package, the function returns
  \<^verbatim>\<open>(false, nil)\<close>, because the elapsed time is never below a deadline of zero and
  the deadline is checked before \<^verbatim>\<open>true\<close> is returned.
\<close>

theorem waitForInstancesToStage_zero_deadline_counterexample:
  "PackageState (fst (appRepo_GetApp ex_world (appCalls ctl_init) (GUID ex_app))) = ''STAGED'' \<and>
   waitForInstancesToStage 0 ex_pkg (ex_cmd\<lparr>StagingTimeout := 0\<rparr>) ex_world ex_app ctl_init =
     Some ((False, None),
           \<lparr>trace = [EvGetApp ''app-guid''], clock = 12000000000, clockReads = 2,
            appCalls = 1, instCalls = 0\<rparr>)"
  by (simp add: ex_defs stage_defs)

text \<open>
  Claim C2, amended. With a staging deadline of zero the poller fetches the application
  exactly once, without looping and without sleeping, whatever the fuel. The flag it
  returns is always false. The error is the fetch error when the fetch fails, one of
  the two staging-failure errors when the fetch succeeds with package state
  \<^verbatim>\<open>FAILED\<close>, and nil for every other package state, \<^verbatim>\<open>STAGED\<close> included.
\<close>

theorem waitForInstancesToStage_zero_deadline:
  assumes "StagingTimeout cmd = 0"
    and "appRepo_GetApp w (appCalls s) (GUID app) = (app1, err)"
  shows "\<exists>s1. waitForInstancesToStage n p cmd w app s =
             Some ((False,
                    if err \<noteq> None then err
                    else if PackageState app1 = ''FAILED''
                    then Some (if StagingFailedReason app1 = ''NoAppDetectedError''
                               then NoAppDetected_error p app1 else StagingFailed_error p app1)
                    else None), s1) \<and>
           trace s1 = trace s @ EvGetApp (GUID app) #
                        (if err = None \<and> PackageState app1 = ''FAILED'' then [EvSay [] []] else []) \<and>
           appCalls s1 = Suc (appCalls s)"
  using assms
  by (auto simp: waitForInstancesToStage_def stage_fetch_def stage_result_def call_GetApp_def
      time_Now_def time_Since_def emit_def Let_def split: prod.splits)

theorem waitForInstancesToStage_zero_deadline_witness:
  "\<exists>s1. waitForInstancesToStage 0 ex_pkg (ex_cmd\<lparr>StagingTimeout := 0\<rparr>)
           (ex_world_failed ''NoAppDetectedError'') ex_app ctl_init =
          Some ((False, Some NoAppDetected_template), s1) \<and>
        trace s1 = [EvGetApp ''app-guid'', EvSay [] []] \<and> appCalls s1 = 1"
proof -
  have z: "StagingTimeout (ex_cmd\<lparr>StagingTimeout := 0\<rparr>) = 0"
    by simp
  have g: "appRepo_GetApp (ex_world_failed ''NoAppDetectedError'') (appCalls ctl_init) (GUID ex_app) =
             (ex_app\<lparr>PackageState := ''FAILED'', StagingFailedReason := ''NoAppDetectedError''\<rparr>, None)"
    by (simp add: ex_world_failed_def ex_world_def)
  show ?thesis
    using waitForInstancesToStage_zero_deadline [OF z g, of 0 ex_pkg]
    by (simp add: ex_app_def ctl_init_def ex_pkg_def NoAppDetected_error_def)
qed

text \<open>
  Claim C4, as the specification states it: with a non-zero deadline, a loop that is left
  with package state \<^verbatim>\<open>STAGED\<close> gives \<^verbatim>\<open>(true, nil)\<close>. It does not when the
  deadline has passed by the time the function checks it after the loop: here the
  package is fetched as staged 58 seconds into a deadline of one minute, the loop sleeps
  after the fetch as after every other, and the function returns \<^verbatim>\<open>(false, nil)\<close>.
\<close>

theorem waitForInstancesToStage_staged_late_counterexample:
  "StagingTimeout ex_cmd_minute \<noteq> 0 \<and>
   map_option fst (stage_loop (Suc (Suc 0)) ex_cmd_minute ex_world_late 0 ex_app
                     (snd (time_Now ex_world_late ctl_init))) =
     Some (ex_app\<lparr>PackageState := ''STAGED''\<rparr>, None) \<and>
   waitForInstancesToStage (Suc (Suc 0)) ex_pkg ex_cmd_minute ex_world_late ex_app ctl_init =
     Some ((False, None),
           \<lparr>trace = [EvGetApp ''app-guid'', EvSleep 5000000000,
                     EvGetApp ''app-guid'', EvSleep 5000000000],
            clock = 63000000000, clockReads = 4, appCalls = 2, instCalls = 0\<rparr>)"
  by (simp add: ex_defs stage_defs)

text \<open>
  Claim C4, amended. With a non-zero deadline, when the loop is left without an error:
  if the package state is still pending (neither \<^verbatim>\<open>STAGED\<close> nor \<^verbatim>\<open>FAILED\<close>), the
  function returns \<^verbatim>\<open>(false, nil)\<close>; if the package state is \<^verbatim>\<open>STAGED\<close>, it returns
  a nil error and the flag is true exactly when the time elapsed at the check after the
  loop is still below the deadline.
\<close>

theorem waitForInstancesToStage_after_loop:
  assumes "StagingTimeout cmd \<noteq> 0"
    and "time_Now w s = (stagingStartTime, s0)"
    and "stage_loop n cmd w stagingStartTime app s0 = Some ((app1, None), s1)"
  shows "(PackageState app1 \<noteq> ''STAGED'' \<and> PackageState app1 \<noteq> ''FAILED'' \<longrightarrow>
            waitForInstancesToStage n p cmd w app s = Some ((False, None), snd (time_Now w s1))) \<and>
         (PackageState app1 = ''STAGED'' \<longrightarrow>
            waitForInstancesToStage n p cmd w app s =
              Some ((int (fst (time_Now w s1)) - int stagingStartTime < StagingTimeout cmd, None),
                    snd (time_Now w s1)))"
proof -
  have run: "waitForInstancesToStage n p cmd w app s =
               Some (stage_result p cmd w stagingStartTime app1 None s1)"
    using assms by (simp add: waitForInstancesToStage_def stage_fetch_def)
  have staged: "PackageState app1 = ''STAGED'' \<Longrightarrow>
      stage_result p cmd w stagingStartTime app1 None s1 =
        ((int (fst (time_Now w s1)) - int stagingStartTime < StagingTimeout cmd, None),
         snd (time_Now w s1))"
    by (auto simp: stage_result_def time_Since_def Let_def split: prod.splits)
  have pending: "stage_result p cmd w stagingStartTime app1 None s1 =
        ((False, None), snd (time_Now w s1))"
    if "PackageState app1 \<noteq> ''STAGED''" "PackageState app1 \<noteq> ''FAILED''"
  proof -
    have "StagingTimeout cmd \<le> int (clock s1) - int stagingStartTime"
      using stage_loop_deadline [OF assms(3) that] .
    moreover have "clock s1 \<le> fst (time_Now w s1)"
      by (simp add: time_Now_def Let_def)
    ultimately have "StagingTimeout cmd \<le> int (fst (time_Now w s1)) - int stagingStartTime"
      by linarith
    with that show ?thesis
      by (auto simp: stage_result_def time_Since_def Let_def split: prod.splits)
  qed
  show ?thesis
    using run staged pending by simp
qed

theorem waitForInstancesToStage_after_loop_witness:
  "waitForInstancesToStage (Suc 0) ex_pkg ex_cmd ex_world_pending ex_app ctl_init =
     Some ((False, None),
           \<lparr>trace = [EvGetApp ''app-guid'', EvSleep 5000000000], clock = 2000000000000,
            clockReads = 4, appCalls = 1, instCalls = 0\<rparr>) \<and>
   waitForInstancesToStage (Suc 0) ex_pkg ex_cmd ex_world ex_app ctl_init =
     Some ((True, None),
           \<lparr>trace = [EvGetApp ''app-guid'', EvSleep 5000000000], clock = 18000000000,
            clockReads = 3, appCalls = 1, instCalls = 0\<rparr>)"
proof -
  have nz: "StagingTimeout ex_cmd \<noteq> 0"
    by (simp add: ex_cmd_def)
  let ?s0 = "\<lparr>trace = [], clock = 500000000000, clockReads = 1, appCalls = 0, instCalls = 0\<rparr>"
  let ?s1 = "\<lparr>trace = [EvGetApp ''app-guid'', EvSleep 5000000000], clock = 1500000000000,
              clockReads = 3, appCalls = 1, instCalls = 0\<rparr>"
  have now: "time_Now ex_world_pending ctl_init = (500000000000, ?s0)"
    by (simp add: ex_defs stage_defs)
  have loop: "stage_loop (Suc 0) ex_cmd ex_world_pending 500000000000 ex_app ?s0 =
                Some ((ex_app, None), ?s1)"
    by (simp add: ex_defs stage_defs)
  have pending: "PackageState ex_app \<noteq> ''STAGED'' \<and> PackageState ex_app \<noteq> ''FAILED''"
    by (simp add: ex_app_def)
  let ?r0 = "\<lparr>trace = [], clock = 6000000000, clockReads = 1, appCalls = 0, instCalls = 0\<rparr>"
  let ?r1 = "\<lparr>trace = [EvGetApp ''app-guid'', EvSleep 5000000000], clock = 12000000000,
              clockReads = 2, appCalls = 1, instCalls = 0\<rparr>"
  have now': "time_Now ex_world ctl_init = (6000000000, ?r0)"
    by (simp add: ex_defs stage_defs)
  have loop': "stage_loop (Suc 0) ex_cmd ex_world 6000000000 ex_app ?r0 =
                 Some ((ex_app\<lparr>PackageState := ''STAGED''\<rparr>, None), ?r1)"
    by (simp add: ex_defs stage_defs)
  have staged: "PackageState (ex_app\<lparr>PackageState := ''STAGED''\<rparr>) = ''STAGED''"
    by simp
  have a: "waitForInstancesToStage (Suc 0) ex_pkg ex_cmd ex_world_pending ex_app ctl_init =
             Some ((False, None), snd (time_Now ex_world_pending ?s1))"
    using waitForInstancesToStage_after_loop [OF nz now loop, of ex_pkg] pending by blast
  have b: "waitForInstancesToStage (Suc 0) ex_pkg ex_cmd ex_world ex_app ctl_init =
             Some ((int (fst (time_Now ex_world ?r1)) - int 6000000000 < StagingTimeout ex_cmd, None),
                   snd (time_Now ex_world ?r1))"
    using waitForInstancesToStage_after_loop [OF nz now' loop', of ex_pkg] staged by blast
  show ?thesis
    unfolding a b by (simp add: ex_defs time_Now_def)
qed




subsection \<open>waitForOneRunningInstance\<close>

text \<open>One iteration of the loop, for each way its \<^verbatim>\<open>default\<close> branch can go.\<close>

lemma instance_loop_running:
  assumes "\<not> timerFired w k"
    and "fetchInstanceCount p w (GUID app) s = ((count, None), s1)"
    and "running count > 0"
  shows "instance_loop (Suc n) p cmd w app k s =
           Some (None, emit (EvSay (instancesDetails p count) []) s1)"
  using assms by (simp add: Let_def)

lemma instance_loop_crashed:
  assumes "\<not> timerFired w k"
    and "fetchInstanceCount p w (GUID app) s = ((count, None), s1)"
    and "running count = 0" and "flapping count > 0 \<or> crashed count > 0"
  shows "instance_loop (Suc n) p cmd w app k s =
           Some (Some (StartUnsuccessful_error p app), emit (EvSay (instancesDetails p count) []) s1)"
  using assms by (simp add: Let_def)

lemma instance_loop_fetch_error:
  assumes "\<not> timerFired w k"
    and "fetchInstanceCount p w (GUID app) s = ((count, Some e), s1)"
  shows "instance_loop (Suc n) p cmd w app k s =
           instance_loop n p cmd w app (Suc k)
             (emit (EvSleep (PingerThrottle cmd))
                (emit (EvWarn ''Could not fetch instance count: %s'' [e]) s1))"
  using assms by (simp add: Let_def)

lemma instance_loop_waiting:
  assumes "\<not> timerFired w k"
    and "fetchInstanceCount p w (GUID app) s = ((count, None), s1)"
    and "running count = 0" and "flapping count = 0" and "crashed count = 0"
  shows "instance_loop (Suc n) p cmd w app k s =
           instance_loop n p cmd w app (Suc k)
             (emit (EvSleep (PingerThrottle cmd)) (emit (EvSay (instancesDetails p count) []) s1))"
  using assms by (simp add: Let_def)


text \<open>Undecided iterations are passed over: each one fetches once and goes round again.\<close>

lemma fetchInstanceCount_snapshot_eq:
  "fetchInstanceCount p w appGUID s =
     (snapshot p w appGUID (instCalls s),
      (emit (EvGetInstances appGUID) s)\<lparr>instCalls := Suc (instCalls s)\<rparr>)"
  by (simp add: fetchInstanceCount_def snapshot_def Let_def split: prod.splits)

lemma instance_loop_undecided:
  assumes "undecided p w (GUID app) (instCalls s) k"
  shows "\<exists>s'. instCalls s' = Suc (instCalls s) \<and>
              (\<forall>n. instance_loop (Suc n) p cmd w app k s = instance_loop n p cmd w app (Suc k) s')"
proof -
  obtain count err where sn: "snapshot p w (GUID app) (instCalls s) = (count, err)"
    by (cases "snapshot p w (GUID app) (instCalls s)")
  let ?s1 = "(emit (EvGetInstances (GUID app)) s)\<lparr>instCalls := Suc (instCalls s)\<rparr>"
  have f: "fetchInstanceCount p w (GUID app) s = ((count, err), ?s1)"
    by (simp add: fetchInstanceCount_snapshot_eq sn)
  have t: "\<not> timerFired w k"
    using assms by (simp add: undecided_def)
  show ?thesis
  proof (cases err)
    case (Some e)
    with f t have "\<forall>n. instance_loop (Suc n) p cmd w app k s =
        instance_loop n p cmd w app (Suc k)
          (emit (EvSleep (PingerThrottle cmd))
             (emit (EvWarn ''Could not fetch instance count: %s'' [e]) ?s1))"
      by (simp add: instance_loop_fetch_error)
    moreover have "instCalls (emit (EvSleep (PingerThrottle cmd))
             (emit (EvWarn ''Could not fetch instance count: %s'' [e]) ?s1)) = Suc (instCalls s)"
      by (simp add: emit_def)
    ultimately show ?thesis by blast
  next
    case None
    with assms sn have z: "running count = 0" "flapping count = 0" "crashed count = 0"
      by (simp_all add: undecided_def)
    with f t None have "\<forall>n. instance_loop (Suc n) p cmd w app k s =
        instance_loop n p cmd w app (Suc k)
          (emit (EvSleep (PingerThrottle cmd)) (emit (EvSay (instancesDetails p count) []) ?s1))"
      by (simp add: instance_loop_waiting)
    moreover have "instCalls (emit (EvSleep (PingerThrottle cmd))
             (emit (EvSay (instancesDetails p count) []) ?s1)) = Suc (instCalls s)"
      by (simp add: emit_def)
    ultimately show ?thesis by blast
  qed
qed

lemma instance_loop_skip:
  "\<forall>i<j. undecided p w (GUID app) (instCalls s + i) (k + i) \<Longrightarrow>
   \<exists>s'. instCalls s' = instCalls s + j \<and>
        (\<forall>n. instance_loop (j + n) p cmd w app k s = instance_loop n p cmd w app (k + j) s')"
proof (induction j arbitrary: k s)
  case 0
  have "instCalls s = instCalls s + 0 \<and>
        (\<forall>n. instance_loop (0 + n) p cmd w app k s = instance_loop n p cmd w app (k + 0) s)"
    by simp
  then show ?case by blast
next
  case (Suc j)
  from Suc.prems have "undecided p w (GUID app) (instCalls s) k"
    by force
  from instance_loop_undecided [OF this, of cmd]
  obtain s1 where s1: "instCalls s1 = Suc (instCalls s)"
    "\<And>n. instance_loop (Suc n) p cmd w app k s = instance_loop n p cmd w app (Suc k) s1"
    by blast
  have "\<forall>i<j. undecided p w (GUID app) (instCalls s1 + i) (Suc k + i)"
  proof (intro allI impI)
    fix i assume "i < j"
    then have "undecided p w (GUID app) (instCalls s + Suc i) (k + Suc i)"
      using Suc.prems by blast
    then show "undecided p w (GUID app) (instCalls s1 + i) (Suc k + i)"
      by (simp add: s1(1))
  qed
  from Suc.IH [OF this]
  obtain s' where s': "instCalls s' = instCalls s1 + j"
    "\<And>n. instance_loop (j + n) p cmd w app (Suc k) s1 = instance_loop n p cmd w app (Suc k + j) s'"
    by blast
  have "instCalls s' = instCalls s + Suc j"
    by (simp add: s'(1) s1(1))
  moreover have "instance_loop (Suc j + n) p cmd w app k s = instance_loop n p cmd w app (k + Suc j) s'" for n
    using s1(2) [of "j + n"] s'(2) [of n] by simp
  ultimately show ?case by blast
qed

text \<open>
  Claim C6. Let the poller's first \<open>j\<close> iterations be undecided, let the timer not have
  fired at the next \<^verbatim>\<open>select\<close>, and let the fetch of that iteration succeed with
  snapshot \<open>count\<close>. If \<open>count\<close> has a running instance, the poller returns nil,
  whatever the other counts are and whatever the earlier fetches showed (errors, or
  snapshots with instances starting or down). If \<open>count\<close> has no running instance and
  a flapping or crashed one, the poller returns the "Start unsuccessful" error. In both
  cases this fetch is the last one (the repository has been called \<open>j + 1\<close> times) and
  the progress line for \<open>count\<close> is the last thing the poller does: it neither sleeps
  nor fetches again.
\<close>

theorem waitForOneRunningInstance_decides:
  assumes "\<forall>i<j. undecided p w (GUID app) (instCalls s + i) i"
    and "\<not> timerFired w j"
    and "snapshot p w (GUID app) (instCalls s + j) = (count, None)"
  shows "(running count > 0 \<longrightarrow>
            (\<exists>s'. waitForOneRunningInstance (Suc j + n) p cmd w app s = Some (None, s') \<and>
                  instCalls s' = instCalls s + Suc j \<and>
                  last (trace s') = EvSay (instancesDetails p count) [])) \<and>
         (running count = 0 \<and> (flapping count > 0 \<or> crashed count > 0) \<longrightarrow>
            (\<exists>s'. waitForOneRunningInstance (Suc j + n) p cmd w app s =
                    Some (Some (StartUnsuccessful_error p app), s') \<and>
                  instCalls s' = instCalls s + Suc j \<and>
                  last (trace s') = EvSay (instancesDetails p count) []))"
proof -
  from assms(1) have "\<forall>i<j. undecided p w (GUID app) (instCalls s + i) (0 + i)"
    by simp
  from instance_loop_skip [OF this, of cmd]
  obtain s1 where s1: "instCalls s1 = instCalls s + j"
    "\<And>m. instance_loop (j + m) p cmd w app 0 s = instance_loop m p cmd w app (0 + j) s1"
    by blast
  let ?s2 = "(emit (EvGetInstances (GUID app)) s1)\<lparr>instCalls := Suc (instCalls s1)\<rparr>"
  let ?s3 = "emit (EvSay (instancesDetails p count) []) ?s2"
  have f: "fetchInstanceCount p w (GUID app) s1 = ((count, None), ?s2)"
    by (simp add: fetchInstanceCount_snapshot_eq s1(1) assms(3))
  have run: "waitForOneRunningInstance (Suc j + n) p cmd w app s =
               instance_loop (Suc n) p cmd w app j s1"
    using s1(2) [of "Suc n"] by (simp add: waitForOneRunningInstance_def)
  have st: "instCalls ?s3 = instCalls s + Suc j" "last (trace ?s3) = EvSay (instancesDetails p count) []"
    by (simp_all add: emit_def s1(1))
  have a: "running count > 0 \<Longrightarrow> instance_loop (Suc n) p cmd w app j s1 = Some (None, ?s3)"
    using instance_loop_running [OF assms(2) f] by simp
  have b: "running count = 0 \<Longrightarrow> flapping count > 0 \<or> crashed count > 0 \<Longrightarrow>
           instance_loop (Suc n) p cmd w app j s1 = Some (Some (StartUnsuccessful_error p app), ?s3)"
    using instance_loop_crashed [OF assms(2) f] by simp
  show ?thesis
    using run a b st by auto
qed

theorem waitForOneRunningInstance_decides_witness:
  "(\<exists>s'. waitForOneRunningInstance (Suc (Suc 0)) ex_pkg ex_cmd ex_world ex_app ctl_init =
            Some (None, s') \<and>
         instCalls s' = 2 \<and>
         last (trace s') = EvSay ''{{.RunningCount}} of {{.TotalCount}} instances running'' []) \<and>
   (\<exists>s'. waitForOneRunningInstance (Suc (Suc 0)) ex_pkg ex_cmd ex_world_crash ex_app ctl_init =
            Some (Some (StartUnsuccessful_error ex_pkg ex_app), s') \<and>
         instCalls s' = 2 \<and>
         last (trace s') =
           EvSay ''{{.RunningCount}} of {{.TotalCount}} instances running, {{.StartingCount}} starting, {{.CrashedCount}} crashed'' [])"
proof -
  let ?up = "\<lparr>running = 1, starting = 0, startingDetails = {}, flapping = 0, down = 0,
              crashed = 0, total = 1\<rparr>"
  let ?broken = "\<lparr>running = 0, starting = 1, startingDetails = {}, flapping = 0, down = 0,
                  crashed = 1, total = 2\<rparr>"
  have u: "\<forall>i<Suc 0. undecided ex_pkg ex_world (GUID ex_app) (instCalls ctl_init + i) i"
    by (simp add: ex_defs instance_defs)
  have t: "\<not> timerFired ex_world (Suc 0)"
    by (simp add: ex_world_def)
  have sn: "snapshot ex_pkg ex_world (GUID ex_app) (instCalls ctl_init + Suc 0) = (?up, None)"
    by (simp add: ex_defs instance_defs)
  have u': "\<forall>i<Suc 0. undecided ex_pkg ex_world_crash (GUID ex_app) (instCalls ctl_init + i) i"
    by (simp add: ex_defs instance_defs)
  have t': "\<not> timerFired ex_world_crash (Suc 0)"
    by (simp add: ex_world_crash_def ex_world_def)
  have sn': "snapshot ex_pkg ex_world_crash (GUID ex_app) (instCalls ctl_init + Suc 0) = (?broken, None)"
    by (simp add: ex_defs instance_defs)
  show ?thesis
    using waitForOneRunningInstance_decides [OF u t sn, of 0 ex_cmd]
      waitForOneRunningInstance_decides [OF u' t' sn', of 0 ex_cmd]
    by (simp add: ctl_init_def ex_pkg_def instancesDetails_def numeral_2_eq_2)
qed





subsection \<open>TailStagingLogs\<close>

text \<open>
  Once the tailer has stopped trying and its loop has returned, no step changes the
  state. Once the loop has returned and the closure is not under way, only a new call
  of the closure changes it. Once a connection has been made and the closure is not
  under way, no step of the loop goroutine signals ready.
\<close>

lemma tail_step_gave_up:
  "connectionStatus t = StoppedTrying \<Longrightarrow> loop_at t = Returned \<Longrightarrow> \<not> closure_entered t \<Longrightarrow>
   tail_step p t st = t"
  by (cases st)
     (simp_all add: tail_step_def onConnect_guard_def onConnect_body_def tail_branch_def)

lemma foldl_tail_step_gave_up:
  "connectionStatus t = StoppedTrying \<Longrightarrow> loop_at t = Returned \<Longrightarrow> \<not> closure_entered t \<Longrightarrow>
   foldl (tail_step p) t steps = t"
  by (induction steps arbitrary: t) (simp_all add: tail_step_gave_up)

lemma tail_step_returned:
  "loop_at t = Returned \<Longrightarrow> \<not> closure_entered t \<Longrightarrow> st \<noteq> Enter OnConnect \<Longrightarrow>
   tail_step p t st = t"
  by (cases st) (simp_all add: tail_step_def onConnect_body_def tail_branch_def)

lemma foldl_tail_step_returned:
  "loop_at t = Returned \<Longrightarrow> \<not> closure_entered t \<Longrightarrow> Enter OnConnect \<notin> set steps \<Longrightarrow>
   foldl (tail_step p) t steps = t"
  by (induction steps arbitrary: t) (auto simp: tail_step_returned)

lemma tail_select_connected:
  assumes "connected t" and "\<not> closure_entered t" and "loop_at t = AtSelect"
  shows "connected (tail_select p sg t) \<and> \<not> closure_entered (tail_select p sg t) \<and>
         loop_at (tail_select p sg t) \<noteq> InTimer \<and>
         startWait_Done (tail_select p sg t) = startWait_Done t"
  using assms
  by (cases "(p, sg, t)" rule: tail_select.cases)
     (auto simp: connected_def tail_return_def tail_emit_def)

lemma tail_branch_connected:
  assumes "connected t" and "\<not> closure_entered t" and "loop_at t \<noteq> InTimer"
  shows "connected (tail_branch p t) \<and> \<not> closure_entered (tail_branch p t) \<and>
         loop_at (tail_branch p t) \<noteq> InTimer \<and>
         startWait_Done (tail_branch p t) = startWait_Done t"
  using assms
  by (cases "loop_at t")
     (auto simp: tail_branch_def connected_def tail_return_def tail_emit_def Let_def)

lemma tail_step_connected:
  assumes "connected t" and "\<not> closure_entered t" and "loop_at t \<noteq> InTimer"
    and "st \<noteq> Enter OnConnect"
  shows "connected (tail_step p t st) \<and> \<not> closure_entered (tail_step p t st) \<and>
         loop_at (tail_step p t st) \<noteq> InTimer \<and>
         startWait_Done (tail_step p t st) = startWait_Done t"
proof (cases st)
  case (Enter sg)
  with assms(4) have sg: "sg \<noteq> OnConnect"
    by simp
  show ?thesis
  proof (cases "loop_at t = AtSelect")
    case True
    with Enter sg tail_select_connected [OF assms(1,2) True, of p sg] show ?thesis
      by (simp add: tail_step_def)
  next
    case False
    with Enter sg assms(1,2,3) show ?thesis
      by (simp add: tail_step_def)
  qed
next
  case LoopBody
  with tail_branch_connected [OF assms(1,2,3), of p] show ?thesis
    by (simp add: tail_step_def)
next
  case ClosureBody
  with assms(1,2,3) show ?thesis
    by (simp add: tail_step_def onConnect_body_def)
qed

lemma foldl_tail_step_connected:
  "connected t \<Longrightarrow> \<not> closure_entered t \<Longrightarrow> loop_at t \<noteq> InTimer \<Longrightarrow>
   Enter OnConnect \<notin> set steps \<Longrightarrow>
   startWait_Done (foldl (tail_step p) t steps) = startWait_Done t"
proof (induction steps arbitrary: t)
  case Nil
  show ?case by simp
next
  case (Cons st steps)
  then have "st \<noteq> Enter OnConnect" "Enter OnConnect \<notin> set steps"
    by auto
  with Cons.prems(1,2,3) tail_step_connected [of t st p] Cons.IH [of "tail_step p t st"]
  show ?case by simp
qed

text \<open>
  Claim C3, as the specification states it: the ready signal is issued exactly once under
  each of the four orderings. It is not.
  \<^item> When the stop signal arrives first, the loop returns (the done signal is issued)
    without a ready signal, and a timeout that follows finds nobody reading the timer:
    ready is issued zero times.
  \<^item> When a stream error arrives first, the error branch signals ready and returns but
    leaves the status at \<^verbatim>\<open>NoConnection\<close>, so a connect callback that follows signals
    ready a second time.
  \<^item> When the timeout and the connect callback overlap, ready is signalled twice. In the
    third line the timer branch has found the status to be \<^verbatim>\<open>NoConnection\<close> when the
    closure is called, finds it not to be \<^verbatim>\<open>StoppedTrying\<close> and signals; the timer
    branch then signals too. In the fourth line the closure has passed its guard when
    the timer branch runs from its test to its return; the closure then signals too.
\<close>

theorem TailStagingLogs_ready_counterexample:
  "startWait_Done (TailStagingLogs ex_pkg (whole StopChan @ whole TimerC)) = 0 \<and>
   doneWait_Done (TailStagingLogs ex_pkg (whole StopChan @ whole TimerC)) = 1 \<and>
   startWait_Done
     (TailStagingLogs ex_pkg (whole (ErrC (Some ''EOF'')) @ whole OnConnect @ whole TimerC)) = 2 \<and>
   startWait_Done
     (TailStagingLogs ex_pkg [Enter TimerC, Enter OnConnect, ClosureBody, LoopBody]) = 2 \<and>
   startWait_Done
     (TailStagingLogs ex_pkg [Enter OnConnect, Enter TimerC, LoopBody, ClosureBody]) = 2"
  by (simp add: tail_defs Let_def)

text \<open>
  Claim C3, amended. Started from scratch, the tailer issues the ready signal exactly
  once when the timer branch has run from its receive to its return before the closure
  is called, whatever the two goroutines do afterwards and in whatever order. When the
  closure has been called and has returned before the loop goroutine takes a step, ready
  is issued exactly once whatever the loop goroutine does afterwards (the timeout
  included), provided the closure is not called again. When the error branch has run
  from its receive to its return first, ready is issued exactly once provided the closure
  is not called afterwards. When the stop signal is received first, the tailer returns
  without issuing ready, and ready stays unissued unless the closure is called afterwards.
  Nothing is said about schedules in which the closure overlaps the first branch.
\<close>

theorem TailStagingLogs_ready:
  "startWait_Done (TailStagingLogs p (whole TimerC @ later)) = 1 \<and>
   (Enter OnConnect \<notin> set rest \<longrightarrow>
      startWait_Done (TailStagingLogs p (whole OnConnect @ rest)) = 1 \<and>
      startWait_Done (TailStagingLogs p (whole (ErrC (Some err)) @ rest)) = 1 \<and>
      startWait_Done (TailStagingLogs p (whole StopChan @ rest)) = 0)"
proof -
  let ?gave_up = "foldl (tail_step p) tailer_init (whole TimerC)"
  have "connectionStatus ?gave_up = StoppedTrying" "loop_at ?gave_up = Returned"
    "\<not> closure_entered ?gave_up" "startWait_Done ?gave_up = 1"
    by (simp_all add: tail_defs)
  then have a: "startWait_Done (TailStagingLogs p (whole TimerC @ later)) = 1"
    by (simp add: TailStagingLogs_def foldl_tail_step_gave_up)
  let ?conn = "foldl (tail_step p) tailer_init (whole OnConnect)"
  have "connected ?conn" "\<not> closure_entered ?conn" "loop_at ?conn \<noteq> InTimer"
    "startWait_Done ?conn = 1"
    by (simp_all add: tail_defs connected_def)
  then have b: "startWait_Done (TailStagingLogs p (whole OnConnect @ rest)) = 1"
    if "Enter OnConnect \<notin> set rest"
    using that by (simp add: TailStagingLogs_def foldl_tail_step_connected)
  let ?failed = "foldl (tail_step p) tailer_init (whole (ErrC (Some err)))"
  have "loop_at ?failed = Returned" "\<not> closure_entered ?failed" "startWait_Done ?failed = 1"
    by (simp_all add: tail_defs Let_def)
  then have c: "startWait_Done (TailStagingLogs p (whole (ErrC (Some err)) @ rest)) = 1"
    if "Enter OnConnect \<notin> set rest"
    using that by (simp add: TailStagingLogs_def foldl_tail_step_returned)
  let ?stopped = "foldl (tail_step p) tailer_init (whole StopChan)"
  have "loop_at ?stopped = Returned" "\<not> closure_entered ?stopped" "startWait_Done ?stopped = 0"
    by (simp_all add: tail_defs)
  then have d: "startWait_Done (TailStagingLogs p (whole StopChan @ rest)) = 0"
    if "Enter OnConnect \<notin> set rest"
    using that by (simp add: TailStagingLogs_def foldl_tail_step_returned)
  show ?thesis
    using a b c d by blast
qed

theorem TailStagingLogs_ready_witness:
  "startWait_Done (TailStagingLogs ex_pkg (whole TimerC @ whole OnConnect)) = 1 \<and>
   startWait_Done (TailStagingLogs ex_pkg (whole OnConnect @ whole TimerC)) = 1 \<and>
   startWait_Done (TailStagingLogs ex_pkg (whole (ErrC (Some ''EOF'')) @ whole TimerC)) = 1 \<and>
   startWait_Done (TailStagingLogs ex_pkg (whole StopChan @ whole TimerC)) = 0"
proof -
  have h: "Enter OnConnect \<notin> set (whole TimerC)"
    by (simp add: whole_def)
  show ?thesis
    using TailStagingLogs_ready [of ex_pkg "whole OnConnect" "whole TimerC" "''EOF''"] h by blast
qed

subsection \<open>WatchStaging\<close>

text \<open>
  Claim C10. When the tailer has signalled ready, the start operation has succeeded and
  the stage poller reports a staging timeout, \<^verbatim>\<open>(false, nil)\<close>, the control task sends
  the stop signal, waits for the tailer's done signal (and does not return if that never
  comes), says an empty line and then returns the zero application together with the
  error "NAME failed to stage within M minutes", where NAME is the application's name
  and M the rendering of \<^verbatim>\<open>cmd.StagingTimeout.Minutes()\<close>.
\<close>

theorem WatchStaging_staging_timeout:
  assumes "startedReleased w"
    and "start app (emit EvWaitStarted (emit (EvGoTailStagingLogs (GUID app)) s)) =
           ((updatedApp, None), s3)"
    and "waitForInstancesToStage n p cmd w updatedApp s3 = Some ((False, None), s4)"
  shows "WatchStaging n p cmd w app orgName spaceName start s =
           (if doneReleased w
            then Some ((Application_zero,
                        Some (Name app @ '' failed to stage within '' @
                              fmt_f_Minutes p (StagingTimeout cmd) @ '' minutes'')),
                       s4\<lparr>trace := trace s4 @ [EvSendStop, EvWaitDone, EvSay [] []]\<rparr>)
            else None)"
  using assms by (simp add: WatchStaging_def emit_def Let_def)

theorem WatchStaging_staging_timeout_witness:
  "WatchStaging (Suc 0) ex_pkg ex_cmd ex_world_pending ex_app ''org'' ''space''
     (start_closure ex_pkg ex_world_pending ''org'' ''space'') ctl_init =
   Some ((Application_zero, Some ''my-app failed to stage within 15.000000 minutes''),
         \<lparr>trace =
            [EvGoTailStagingLogs ''app-guid'', EvWaitStarted,
             EvSay ''Starting app {{.AppName}} in org {{.OrgName}} / space {{.SpaceName}} as {{.CurrentUser}}...'' [],
             EvUpdate ''app-guid'' ''STARTED'', EvGetApp ''app-guid'', EvSleep 5000000000,
             EvSendStop, EvWaitDone, EvSay [] []],
          clock = 2000000000000, clockReads = 4, appCalls = 1, instCalls = 0\<rparr>)"
proof -
  let ?s3 = "\<lparr>trace =
              [EvGoTailStagingLogs ''app-guid'', EvWaitStarted,
               EvSay ''Starting app {{.AppName}} in org {{.OrgName}} / space {{.SpaceName}} as {{.CurrentUser}}...'' [],
               EvUpdate ''app-guid'' ''STARTED''],
             clock = 0, clockReads = 0, appCalls = 0, instCalls = 0\<rparr>"
  let ?s4 = "\<lparr>trace =
              [EvGoTailStagingLogs ''app-guid'', EvWaitStarted,
               EvSay ''Starting app {{.AppName}} in org {{.OrgName}} / space {{.SpaceName}} as {{.CurrentUser}}...'' [],
               EvUpdate ''app-guid'' ''STARTED'', EvGetApp ''app-guid'', EvSleep 5000000000],
             clock = 2000000000000, clockReads = 4, appCalls = 1, instCalls = 0\<rparr>"
  have r: "startedReleased ex_world_pending" "doneReleased ex_world_pending"
    by (simp_all add: ex_world_pending_def ex_world_def)
  have st: "start_closure ex_pkg ex_world_pending ''org'' ''space'' ex_app
              (emit EvWaitStarted (emit (EvGoTailStagingLogs (GUID ex_app)) ctl_init)) =
            ((ex_app\<lparr>State := ''STARTED''\<rparr>, None), ?s3)"
    by (simp add: ex_defs stage_defs start_closure_def)
  have poll: "waitForInstancesToStage (Suc 0) ex_pkg ex_cmd ex_world_pending
                (ex_app\<lparr>State := ''STARTED''\<rparr>) ?s3 = Some ((False, None), ?s4)"
    by (simp add: ex_defs stage_defs)
  show ?thesis
    using WatchStaging_staging_timeout
            [where start = "start_closure ex_pkg ex_world_pending ''org'' ''space''"
               and app = ex_app and s = ctl_init and orgName = "''org''" and spaceName = "''space''",
             OF r(1) st poll] r(2)
    by (simp add: ex_pkg_def ex_cmd_def ex_app_def)
qed

text \<open>
  Claim C1 says that on every exit path \<^verbatim>\<open>WatchStaging\<close> signals the tailer to stop
  and waits for its done signal before it returns. The two early error returns do not.
  Below, the start operation fails in the first run and the stage poller's fetch fails
  in the second; in both worlds the tailer never signals done. \<^verbatim>\<open>WatchStaging\<close>
  returns the error all the same, and its trace ends with the failed call: it contains
  neither the send on the stop channel nor the wait for done, which the staging-timeout
  return of claim C10 and every later return come after. A tailer that has connected
  and has been sent nothing else is still in its loop and has not signalled done.
\<close>

theorem WatchStaging_error_returns_leave_the_tailer:
  "WatchStaging 0 ex_pkg ex_cmd ex_world_start_error ex_app ''org'' ''space''
     (start_closure ex_pkg ex_world_start_error ''org'' ''space'') ctl_init =
   Some ((Application_zero, Some ''update failed''),
         \<lparr>trace =
            [EvGoTailStagingLogs ''app-guid'', EvWaitStarted,
             EvSay ''Starting app {{.AppName}} in org {{.OrgName}} / space {{.SpaceName}} as {{.CurrentUser}}...'' [],
             EvUpdate ''app-guid'' ''STARTED''],
          clock = 0, clockReads = 0, appCalls = 0, instCalls = 0\<rparr>) \<and>
   WatchStaging (Suc 0) ex_pkg ex_cmd ex_world_fetch_error ex_app ''org'' ''space''
     (start_closure ex_pkg ex_world_fetch_error ''org'' ''space'') ctl_init =
   Some ((Application_zero, Some ''fetch failed''),
         \<lparr>trace =
            [EvGoTailStagingLogs ''app-guid'', EvWaitStarted,
             EvSay ''Starting app {{.AppName}} in org {{.OrgName}} / space {{.SpaceName}} as {{.CurrentUser}}...'' [],
             EvUpdate ''app-guid'' ''STARTED'', EvGetApp ''app-guid''],
          clock = 12000000000, clockReads = 2, appCalls = 1, instCalls = 0\<rparr>) \<and>
   looping (TailStagingLogs ex_pkg (whole OnConnect)) \<and>
   doneWait_Done (TailStagingLogs ex_pkg (whole OnConnect)) = 0"
  by (simp add: ex_defs stage_defs watch_defs tail_defs)


end
